theory Spec2Isabelle
  imports Main "HOL-Library.Word"
begin

unbundle bit_operations_syntax

section \<open>The strict-comparisons rule: kinds and the comparability resolver\<close>

text \<open>
  \<^verbatim>\<open>const enum TypeKind { Any = 0, Number = 1, Enum = 2, String = 3, Boolean = 4,
                        NullOrUndefined = 5, Object = 6 }\<close>
  The enumeration is a datatype; \<open>TypeKind_value\<close> is the number each member stands
  for at run time.
\<close>

datatype TypeKind = Any | Number | Enum | String | Boolean | NullOrUndefined | Object

fun TypeKind_value :: "TypeKind \<Rightarrow> int" where
  "TypeKind_value Any = 0"
| "TypeKind_value Number = 1"
| "TypeKind_value Enum = 2"
| "TypeKind_value String = 3"
| "TypeKind_value Boolean = 4"
| "TypeKind_value NullOrUndefined = 5"
| "TypeKind_value Object = 6"

text \<open>
  A run-time number as \<open>Math.max\<close> can return it over an array of enumeration
  values: one of the array's integers, or \<open>-Infinity\<close> for the empty array.
\<close>

datatype jsnumber = NegInfinity | Num int

fun Math_max :: "int list \<Rightarrow> jsnumber" where
  "Math_max [] = NegInfinity"
| "Math_max (x # xs) = Num (fold max xs x)"

text \<open>\<open>Array.prototype.indexOf\<close>: the first index holding the element, or \<open>-1\<close>.\<close>

fun indexOf :: "'a list \<Rightarrow> 'a \<Rightarrow> int" where
  "indexOf [] x = - 1"
| "indexOf (y # ys) x =
     (if y = x then 0 else (let i = indexOf ys x in if i < 0 then - 1 else i + 1))"

definition arrayContainsKind :: "TypeKind list \<Rightarrow> TypeKind \<Rightarrow> bool" where
  "arrayContainsKind types typeToCheck = list_ex (\<lambda>type. type = typeToCheck) types"

definition getStrictestKind :: "TypeKind list \<Rightarrow> jsnumber" where
  "getStrictestKind types = Math_max (map TypeKind_value types)"

text \<open>The result \<open>None\<close> is the source's \<open>undefined\<close>.\<close>

definition getStrictestComparableType :: "TypeKind list \<Rightarrow> TypeKind list \<Rightarrow> jsnumber option" where
  "getStrictestComparableType typesLeft typesRight =
     (let overlappingTypes = filter (\<lambda>type. indexOf typesRight type \<ge> 0) typesLeft in
      if length overlappingTypes > 0 then Some (getStrictestKind overlappingTypes)
      else if arrayContainsKind typesLeft Any then Some (getStrictestKind typesRight)
      else if arrayContainsKind typesRight Any then Some (getStrictestKind typesLeft)
      else if (arrayContainsKind typesLeft NullOrUndefined \<and> arrayContainsKind typesRight Object)
            \<or> (arrayContainsKind typesRight NullOrUndefined \<and> arrayContainsKind typesLeft Object)
        then Some (Num (TypeKind_value Object))
      else None)"

section \<open>The strict-comparisons rule: classification of types\<close>

text \<open>
  Modelled from the spec: the type representation of the TypeScript compiler, which is
  not part of this repository. A type carries a bit mask of flags, and a union type
  carries its member types. The flag constants are those of the compiler's
  \<open>TypeFlags\<close> enumeration; \<open>BooleanLike\<close> is \<open>Boolean | BooleanLiteral\<close>.
  \<open>isTypeFlagSet\<close> and \<open>isUnionType\<close> are the two tests of the \<open>tsutils\<close>
  library the rule calls.
\<close>

datatype Type = Type (flags: "32 word") (types: "Type list")

definition TypeFlags_Any :: "32 word" where "TypeFlags_Any = 1"
definition TypeFlags_String :: "32 word" where "TypeFlags_String = 4"
definition TypeFlags_Number :: "32 word" where "TypeFlags_Number = 8"
definition TypeFlags_Boolean :: "32 word" where "TypeFlags_Boolean = 16"
definition TypeFlags_StringLiteral :: "32 word" where "TypeFlags_StringLiteral = 128"
definition TypeFlags_NumberLiteral :: "32 word" where "TypeFlags_NumberLiteral = 256"
definition TypeFlags_BooleanLiteral :: "32 word" where "TypeFlags_BooleanLiteral = 512"
definition TypeFlags_Void :: "32 word" where "TypeFlags_Void = 16384"
definition TypeFlags_Undefined :: "32 word" where "TypeFlags_Undefined = 32768"
definition TypeFlags_Null :: "32 word" where "TypeFlags_Null = 65536"
definition TypeFlags_Union :: "32 word" where "TypeFlags_Union = 1048576"
definition TypeFlags_BooleanLike :: "32 word" where
  "TypeFlags_BooleanLike = TypeFlags_Boolean OR TypeFlags_BooleanLiteral"

definition isTypeFlagSet :: "Type \<Rightarrow> 32 word \<Rightarrow> bool" where
  "isTypeFlagSet type flag = (flags type AND flag \<noteq> 0)"

definition isUnionType :: "Type \<Rightarrow> bool" where
  "isUnionType type = (flags type AND TypeFlags_Union \<noteq> 0)"

definition getKind :: "Type \<Rightarrow> TypeKind" where
  "getKind type =
     (let is = isTypeFlagSet type in
      if is (TypeFlags_String OR TypeFlags_StringLiteral) then String
      else if is (TypeFlags_Number OR TypeFlags_NumberLiteral) then Number
      else if is TypeFlags_BooleanLike then Boolean
      else if is (TypeFlags_Null OR TypeFlags_Undefined OR TypeFlags_Void) then NullOrUndefined
      else if is TypeFlags_Any then Any
      else Object)"

text \<open>
  \<open>Array.from(new Set(xs))\<close>: a set keeps its elements in insertion order, so the
  first occurrence of each element stays, in the order of the array.
\<close>

definition Array_from_Set :: "'a list \<Rightarrow> 'a list" where
  "Array_from_Set xs = fold (\<lambda>x s. if x \<in> set s then s else s @ [x]) xs []"

definition getKinds :: "Type \<Rightarrow> TypeKind list" where
  "getKinds type =
     (if isUnionType type then Array_from_Set (map getKind (types type))
      else [getKind type])"

section \<open>The strict-comparisons rule: the listener for binary expressions\<close>

record Config =
  allowObjectEqualComparison :: bool
  allowStringOrderComparison :: bool

datatype MessageIds = nonComparableTypes | invalidTypeForOperator

text \<open>
  A binary expression as the listener reads it: the operator and the two operand nodes.
  A descriptor is the argument of one \<open>context.report\<close> call; a value of its
  \<open>data\<close> can be \<open>undefined\<close> (\<open>None\<close>).
\<close>

record 'n BinaryExpression_node =
  operator :: string
  left :: 'n
  right :: 'n

record 'n descriptor =
  node :: "'n BinaryExpression_node"
  messageId :: MessageIds
  data :: "(string \<times> string option) list"

text \<open>
  What the listener does to its collaborators, in order: it asks the type checker for the
  type of a node (\<open>getNodeType\<close>) and it reports to the context.
\<close>

datatype 'n event = GetNodeType 'n | ContextReport "'n descriptor"

definition typeNames :: "(int \<times> string) list" where
  "typeNames =
     [(TypeKind_value Any, ''any''),
      (TypeKind_value Number, ''number''),
      (TypeKind_value Enum, ''enum''),
      (TypeKind_value String, ''string''),
      (TypeKind_value Boolean, ''boolean''),
      (TypeKind_value NullOrUndefined, ''null | undefined''),
      (TypeKind_value Object, ''object'')]"

text \<open>\<open>typeNames[n]\<close>: the object has no property for any other number.\<close>

fun typeNames_at :: "jsnumber \<Rightarrow> string option" where
  "typeNames_at NegInfinity = None"
| "typeNames_at (Num v) = map_of typeNames v"

text \<open>\<open>Array.prototype.join\<close>: an \<open>undefined\<close> element is joined as the empty string.\<close>

fun join :: "string option list \<Rightarrow> string \<Rightarrow> string" where
  "join [] sep = []"
| "join [x] sep = (case x of None \<Rightarrow> [] | Some s \<Rightarrow> s)"
| "join (x # y # ys) sep = (case x of None \<Rightarrow> [] | Some s \<Rightarrow> s) @ sep @ join (y # ys) sep"

definition isEqualityOperator :: "string \<Rightarrow> bool" where
  "isEqualityOperator op =
     (if op = ''=='' \<or> op = ''!='' \<or> op = ''==='' \<or> op = ''!==''
      then True else False)"

definition isComparisonOperator :: "string \<Rightarrow> bool" where
  "isComparisonOperator op =
     (if isEqualityOperator op then True
      else if op = ''<'' \<or> op = ''>'' \<or> op = ''<='' \<or> op = ''>=''
      then True else False)"

text \<open>A \<open>case TypeKind.X:\<close> label of a \<open>switch (operandKind)\<close>.\<close>

definition switch_case :: "jsnumber \<Rightarrow> TypeKind \<Rightarrow> bool" where
  "switch_case operandKind k = (operandKind = Num (TypeKind_value k))"

definition invalidTypeForOperator_report ::
  "'n BinaryExpression_node \<Rightarrow> jsnumber \<Rightarrow> 'n descriptor" where
  "invalidTypeForOperator_report n operandKind =
     \<lparr>node = n, messageId = invalidTypeForOperator,
      data = [(''comparator'', Some (operator n)), (''type'', typeNames_at operandKind)]\<rparr>"

text \<open>The switch of the branch \<open>// Check !=, ==, !==, ===\<close>.\<close>

definition checkEquality ::
  "Config \<Rightarrow> 'n BinaryExpression_node \<Rightarrow> jsnumber \<Rightarrow> 'n descriptor list" where
  "checkEquality cfg n operandKind =
     (if switch_case operandKind Any \<or> switch_case operandKind Number
         \<or> switch_case operandKind Enum \<or> switch_case operandKind String
         \<or> switch_case operandKind Boolean then []
      else if switch_case operandKind NullOrUndefined \<or> switch_case operandKind Object then
        (if allowObjectEqualComparison cfg then []
         else [invalidTypeForOperator_report n operandKind])
      else [invalidTypeForOperator_report n operandKind])"

text \<open>The switch of the branch \<open>// Check >, <, >=, <=\<close>.\<close>

definition checkOrdering ::
  "Config \<Rightarrow> 'n BinaryExpression_node \<Rightarrow> jsnumber \<Rightarrow> 'n descriptor list" where
  "checkOrdering cfg n operandKind =
     (if switch_case operandKind Any \<or> switch_case operandKind Number then []
      else if switch_case operandKind String then
        (if allowStringOrderComparison cfg then []
         else [invalidTypeForOperator_report n operandKind])
      else [invalidTypeForOperator_report n operandKind])"

text \<open>The \<open>else\<close> branch of \<open>operandKind === undefined\<close>.\<close>

definition checkOperator ::
  "Config \<Rightarrow> 'n BinaryExpression_node \<Rightarrow> jsnumber \<Rightarrow> 'n descriptor list" where
  "checkOperator cfg n operandKind =
     (let isEquality = isEqualityOperator (operator n) in
      if isEquality then checkEquality cfg n operandKind
      else checkOrdering cfg n operandKind)"

text \<open>
  The listener. \<open>getNodeType\<close> is the type checker's answer for a node, a parameter of
  the model; the configuration is the rule's option object.
\<close>

definition BinaryExpression ::
  "('n \<Rightarrow> Type) \<Rightarrow> Config \<Rightarrow> 'n BinaryExpression_node \<Rightarrow> 'n event list" where
  "BinaryExpression getNodeType cfg n =
     (if isComparisonOperator (operator n) then
        (let leftType = getNodeType (left n);
             rightType = getNodeType (right n);
             leftKinds = getKinds leftType;
             rightKinds = getKinds rightType;
             operandKind = getStrictestComparableType leftKinds rightKinds
         in [GetNodeType (left n), GetNodeType (right n)] @
            map ContextReport
              (case operandKind of
                 None \<Rightarrow>
                   [\<lparr>node = n, messageId = nonComparableTypes,
                     data =
                       [(''typesLeft'',
                         Some (join (map (\<lambda>type. typeNames_at (Num (TypeKind_value type))) leftKinds)
                                 '' | '')),
                        (''typesRight'',
                         Some (join (map (\<lambda>type. typeNames_at (Num (TypeKind_value type))) rightKinds)
                                 '' | ''))]\<rparr>]
               | Some k \<Rightarrow> checkOperator cfg n k))
      else [])"

text \<open>The descriptors reported during a run of the listener.\<close>

fun reports :: "'n event list \<Rightarrow> 'n descriptor list" where
  "reports [] = []"
| "reports (GetNodeType n # es) = reports es"
| "reports (ContextReport d # es) = d # reports es"

section \<open>The class-name-casing rule\<close>

text \<open>
  A JavaScript string is a sequence of 16-bit code units. \<open>codeUnits\<close> gives the
  string of a literal of the source, whose characters are ASCII.
\<close>

type_synonym jsstring = "16 word list"

definition codeUnit :: "char \<Rightarrow> 16 word" where
  "codeUnit c = of_nat (of_char c)"

definition codeUnits :: "string \<Rightarrow> jsstring" where
  "codeUnits s = map codeUnit s"

text \<open>
  The regular expression literal \<open>/^[A-Z][0-9A-Za-z]*$/\<close> has no flags: it is a
  sequence of character classes, each taken once or any number of times (\<open>*\<close>),
  anchored at both ends of the input. A class is a list of ranges of code units.
\<close>

datatype quantifier = Once | ZeroOrMore

type_synonym charClass = "(16 word \<times> 16 word) list"

definition inClass :: "charClass \<Rightarrow> 16 word \<Rightarrow> bool" where
  "inClass cls c = list_ex (\<lambda>(lo, hi). lo \<le> c \<and> c \<le> hi) cls"

fun regexp_test :: "(charClass \<times> quantifier) list \<Rightarrow> jsstring \<Rightarrow> bool" where
  "regexp_test [] s = (s = [])"
| "regexp_test ((cls, Once) # items) s =
     (case s of [] \<Rightarrow> False | c # cs \<Rightarrow> inClass cls c \<and> regexp_test items cs)"
| "regexp_test ((cls, ZeroOrMore) # items) s =
     (regexp_test items s \<or>
      (case s of [] \<Rightarrow> False
       | c # cs \<Rightarrow> inClass cls c \<and> regexp_test ((cls, ZeroOrMore) # items) cs))"

text \<open>
  \<open>RegExp.prototype.test\<close> converts its argument to a string first: the value
  \<open>undefined\<close> (\<open>None\<close>) is tested as the string \<open>undefined\<close>.
\<close>

fun ToString :: "jsstring option \<Rightarrow> jsstring" where
  "ToString None = codeUnits ''undefined''"
| "ToString (Some s) = s"

definition isPascalCase :: "jsstring option \<Rightarrow> bool" where
  "isPascalCase name =
     regexp_test
       [([(codeUnit CHR ''A'', codeUnit CHR ''Z'')], Once),
        ([(codeUnit CHR ''0'', codeUnit CHR ''9''), (codeUnit CHR ''A'', codeUnit CHR ''Z''),
          (codeUnit CHR ''a'', codeUnit CHR ''z'')], ZeroOrMore)]
       (ToString name)"

text \<open>
  The nodes the two listeners read. The \<open>id\<close> of a class or interface declaration
  or of a class expression is an identifier, or \<open>null\<close> (\<open>None\<close>) when the class
  is anonymous. The \<open>id\<close> of a variable declarator is a pattern: an identifier, or
  an object or array pattern with the patterns it binds (\<open>const { Foo } = ...\<close>,
  \<open>const [a, b] = ...\<close>). Only an identifier has the property \<open>name\<close>; reading it
  from another pattern gives \<open>undefined\<close>. The \<open>init\<close> of a variable declarator
  is a node of any type; the selector of the second listener reads its type.
\<close>

record Identifier =
  name :: jsstring

datatype Pattern =
  Identifier_node Identifier
| ObjectPattern "Pattern list"
| ArrayPattern "Pattern list"

fun Pattern_name :: "Pattern \<Rightarrow> jsstring option" where
  "Pattern_name (Identifier_node i) = Some (name i)"
| "Pattern_name (ObjectPattern ps) = None"
| "Pattern_name (ArrayPattern ps) = None"

record Declaration =
  nodeType :: string
  id_node :: "Identifier option"
  abstract :: bool

record VariableDeclarator =
  declarator_id :: "Pattern option"
  init :: Declaration

record casing_descriptor =
  report_node :: Pattern
  message :: string
  friendlyName :: string
  reported_name :: "jsstring option"

datatype error = TypeError

text \<open>
  \<open>report(decl, id)\<close>. Reading \<open>resolvedId.name\<close> when neither \<open>id\<close> nor
  \<open>decl.id\<close> is a node throws a \<open>TypeError\<close>.
\<close>

definition report :: "Declaration \<Rightarrow> Pattern option \<Rightarrow> error + casing_descriptor" where
  "report decl ident =
     (let resolvedId =
            (case ident of Some p \<Rightarrow> Some p | None \<Rightarrow> map_option Identifier_node (id_node decl));
          friendly =
            (if nodeType decl = ''ClassDeclaration'' \<or> nodeType decl = ''ClassExpression''
             then (if abstract decl then ''Abstract class'' else ''Class'')
             else if nodeType decl = ''TSInterfaceDeclaration'' then ''Interface''
             else nodeType decl)
      in case resolvedId of
           None \<Rightarrow> Inl TypeError
         | Some r \<Rightarrow>
             Inr \<lparr>report_node = r,
                  message = ''{{friendlyName}} '' @ [CHR 0x27] @ ''{{name}}'' @ [CHR 0x27]
                            @ '' must be PascalCased.'',
                  friendlyName = friendly,
                  reported_name = Pattern_name r\<rparr>)"

text \<open>The listener \<open>'ClassDeclaration, TSInterfaceDeclaration, ClassExpression'\<close>.\<close>

definition declarationListener :: "Declaration \<Rightarrow> error + casing_descriptor list" where
  "declarationListener n =
     (case id_node n of
        None \<Rightarrow> Inr []
      | Some i \<Rightarrow>
          if \<not> isPascalCase (Some (name i)) then
            (case report n None of Inl e \<Rightarrow> Inl e | Inr d \<Rightarrow> Inr [d])
          else Inr [])"

text \<open>The listener \<open>"VariableDeclarator[init.type='ClassExpression']"\<close>.\<close>

definition variableDeclaratorListener ::
  "VariableDeclarator \<Rightarrow> error + casing_descriptor list" where
  "variableDeclaratorListener n =
     (let ident = declarator_id n in
      case ident of
        None \<Rightarrow> Inr []
      | Some p \<Rightarrow>
          if id_node (init n) = None \<and> \<not> isPascalCase (Pattern_name p) then
            (case report (init n) ident of Inl e \<Rightarrow> Inl e | Inr d \<Rightarrow> Inr [d])
          else Inr [])"

text \<open>
  The traversal calls a listener on every node its selector matches: the first on a
  node of one of the three declaration types, the second on a variable declarator
  whose initialiser has the type \<open>ClassExpression\<close>.
\<close>

datatype ast_node = DeclarationNode Declaration | VariableDeclaratorNode VariableDeclarator

fun visit :: "ast_node \<Rightarrow> error + casing_descriptor list" where
  "visit (DeclarationNode d) =
     (if nodeType d = ''ClassDeclaration'' \<or> nodeType d = ''TSInterfaceDeclaration''
         \<or> nodeType d = ''ClassExpression''
      then declarationListener d else Inr [])"
| "visit (VariableDeclaratorNode v) =
     (if nodeType (init v) = ''ClassExpression'' then variableDeclaratorListener v else Inr [])"

section \<open>The specification's tables\<close>

text \<open>The rank of a kind, from the table of the specification's data model.\<close>

fun rank :: "TypeKind \<Rightarrow> nat" where
  "rank Any = 0"
| "rank Number = 1"
| "rank Enum = 2"
| "rank String = 3"
| "rank Boolean = 4"
| "rank NullOrUndefined = 5"
| "rank Object = 6"

text \<open>\<open>k\<close> is the kind of the highest rank in the kind-set \<open>S\<close>.\<close>

definition isHighestRankOf :: "TypeKind \<Rightarrow> TypeKind set \<Rightarrow> bool" where
  "isHighestRankOf k S = (k \<in> S \<and> (\<forall>j \<in> S. rank j \<le> rank k))"

text \<open>The name of a kind as the diagnostics print it.\<close>

fun kindName :: "TypeKind \<Rightarrow> string" where
  "kindName Any = ''any''"
| "kindName Number = ''number''"
| "kindName Enum = ''enum''"
| "kindName String = ''string''"
| "kindName Boolean = ''boolean''"
| "kindName NullOrUndefined = ''null | undefined''"
| "kindName Object = ''object''"

text \<open>The names of a kind-set, joined by \<open>" | "\<close>.\<close>

fun joinedNames :: "TypeKind list \<Rightarrow> string" where
  "joinedNames [] = []"
| "joinedNames [k] = kindName k"
| "joinedNames (k # j # ks) = kindName k @ '' | '' @ joinedNames (j # ks)"

text \<open>The per-member classification rules of the specification, in their priority order.\<close>

definition stringLike :: "Type \<Rightarrow> bool" where
  "stringLike t = (isTypeFlagSet t TypeFlags_String \<or> isTypeFlagSet t TypeFlags_StringLiteral)"

definition numericLike :: "Type \<Rightarrow> bool" where
  "numericLike t = (isTypeFlagSet t TypeFlags_Number \<or> isTypeFlagSet t TypeFlags_NumberLiteral)"

definition booleanLike :: "Type \<Rightarrow> bool" where
  "booleanLike t = (isTypeFlagSet t TypeFlags_Boolean \<or> isTypeFlagSet t TypeFlags_BooleanLiteral)"

definition nullUndefinedOrVoid :: "Type \<Rightarrow> bool" where
  "nullUndefinedOrVoid t =
     (isTypeFlagSet t TypeFlags_Null \<or> isTypeFlagSet t TypeFlags_Undefined
      \<or> isTypeFlagSet t TypeFlags_Void)"

definition unconstrained :: "Type \<Rightarrow> bool" where
  "unconstrained t = isTypeFlagSet t TypeFlags_Any"

definition classificationRules :: "((Type \<Rightarrow> bool) \<times> TypeKind) list" where
  "classificationRules =
     [(stringLike, String), (numericLike, Number), (booleanLike, Boolean),
      (nullUndefinedOrVoid, NullOrUndefined), (unconstrained, Any)]"

fun firstMatch :: "((Type \<Rightarrow> bool) \<times> TypeKind) list \<Rightarrow> Type \<Rightarrow> TypeKind" where
  "firstMatch [] t = Object"
| "firstMatch ((p, k) # rules) t = (if p t then k else firstMatch rules t)"

text \<open>The operator classes and the decision tables of the specification's operator policy.\<close>

datatype OperatorClass = Equality | Ordering

fun operatorClass :: "string \<Rightarrow> OperatorClass option" where
  "operatorClass op =
     (if op \<in> {''=='', ''!='', ''==='', ''!==''} then Some Equality
      else if op \<in> {''<'', ''>'', ''<='', ''>=''} then Some Ordering
      else None)"

datatype decision = Allow | Reject

fun decide :: "TypeKind \<Rightarrow> OperatorClass \<Rightarrow> Config \<Rightarrow> decision" where
  "decide Any Equality cfg = Allow"
| "decide Number Equality cfg = Allow"
| "decide Enum Equality cfg = Allow"
| "decide String Equality cfg = Allow"
| "decide Boolean Equality cfg = Allow"
| "decide NullOrUndefined Equality cfg =
     (if allowObjectEqualComparison cfg then Allow else Reject)"
| "decide Object Equality cfg =
     (if allowObjectEqualComparison cfg then Allow else Reject)"
| "decide Any Ordering cfg = Allow"
| "decide Number Ordering cfg = Allow"
| "decide String Ordering cfg =
     (if allowStringOrderComparison cfg then Allow else Reject)"
| "decide Boolean Ordering cfg = Reject"
| "decide Enum Ordering cfg = Reject"
| "decide NullOrUndefined Ordering cfg = Reject"
| "decide Object Ordering cfg = Reject"

text \<open>
  A type as the compiler builds it: a union type has at least one member type (the
  compiler builds a union of two or more members only).
\<close>

definition wellFormed :: "Type \<Rightarrow> bool" where
  "wellFormed t = (if isUnionType t then types t \<noteq> [] else True)"

text \<open>
  An array without its duplicates, in the order of the first occurrences: the
  specification's deduplicated, order-preserving list.
\<close>

fun firstOccurrences :: "'a list \<Rightarrow> 'a list" where
  "firstOccurrences [] = []"
| "firstOccurrences (x # xs) = x # filter (\<lambda>y. y \<noteq> x) (firstOccurrences xs)"

text \<open>
  The identifiers the regular expression \<open>^[A-Z][0-9A-Za-z]*$\<close> describes: an upper-case
  ASCII letter followed by any number of ASCII letters and digits.
\<close>

definition upperCase :: "16 word \<Rightarrow> bool" where
  "upperCase c = (unat c \<in> {65..90})"

definition alphaNumeric :: "16 word \<Rightarrow> bool" where
  "alphaNumeric c = (unat c \<in> {48..57} \<union> {65..90} \<union> {97..122})"

definition matchesPascalCase :: "jsstring \<Rightarrow> bool" where
  "matchesPascalCase s = (case s of [] \<Rightarrow> False | c # cs \<Rightarrow> upperCase c \<and> list_all alphaNumeric cs)"

text \<open>The identifiers a pattern binds.\<close>

fun boundIdentifiers :: "Pattern \<Rightarrow> Identifier list" where
  "boundIdentifiers (Identifier_node i) = [i]"
| "boundIdentifiers (ObjectPattern ps) = concat (map boundIdentifiers ps)"
| "boundIdentifiers (ArrayPattern ps) = concat (map boundIdentifiers ps)"

section \<open>Properties of the resolver\<close>

lemma indexOf_nonneg_iff: "indexOf ys x \<ge> 0 \<longleftrightarrow> x \<in> set ys"
  by (induction ys) (auto simp: Let_def)

lemma arrayContainsKind_iff: "arrayContainsKind ks k \<longleftrightarrow> k \<in> set ks"
  by (auto simp: arrayContainsKind_def list_ex_iff)

lemma overlapping_set:
  "set (filter (\<lambda>type. indexOf ys type \<ge> 0) xs) = set xs \<inter> set ys"
  by (auto simp: indexOf_nonneg_iff)

lemma Math_max_Cons: "Math_max (x # xs) = Num (Max (set (x # xs)))"
  using Max.set_eq_fold [of x xs] by simp

lemma Math_max_nonempty: "xs \<noteq> [] \<Longrightarrow> Math_max xs = Num (Max (set xs))"
proof (cases xs)
  case Nil
  assume "xs \<noteq> []"
  with Nil show ?thesis by simp
next
  case (Cons y ys)
  then show ?thesis by (simp only: Math_max_Cons)
qed

lemma Math_max_NegInfinity_iff: "Math_max xs = NegInfinity \<longleftrightarrow> xs = []"
  by (cases xs) simp_all

lemma Math_max_cong_set: "set xs = set ys \<Longrightarrow> Math_max xs = Math_max ys"
proof (cases "xs = []")
  case True
  assume "set xs = set ys"
  with True have "ys = []" by simp
  with True show ?thesis by simp
next
  case False
  assume eq: "set xs = set ys"
  with False have "ys \<noteq> []" by auto
  with False eq show ?thesis by (simp add: Math_max_nonempty)
qed

lemma getStrictestKind_cong_set:
  "set xs = set ys \<Longrightarrow> getStrictestKind xs = getStrictestKind ys"
  unfolding getStrictestKind_def by (rule Math_max_cong_set) simp

lemma TypeKind_value_rank: "TypeKind_value k = int (rank k)"
  by (cases k) simp_all

lemma TypeKind_value_inj: "TypeKind_value j = TypeKind_value k \<longleftrightarrow> j = k"
  by (cases j; cases k) simp_all

lemma getStrictestKind_nonempty:
  assumes "ks \<noteq> []"
  shows "\<exists>k. isHighestRankOf k (set ks) \<and> getStrictestKind ks = Num (TypeKind_value k)"
proof -
  let ?vs = "map TypeKind_value ks"
  from assms have ne: "?vs \<noteq> []" by simp
  then have "Max (set ?vs) \<in> set ?vs" by (intro Max_in) simp_all
  then obtain k where k: "k \<in> set ks" "TypeKind_value k = Max (set ?vs)" by auto
  have "rank j \<le> rank k" if "j \<in> set ks" for j
  proof -
    from that have "TypeKind_value j \<le> Max (set ?vs)" by (intro Max_ge) simp_all
    with k(2) show ?thesis by (simp add: TypeKind_value_rank)
  qed
  with k(1) have "isHighestRankOf k (set ks)" by (simp add: isHighestRankOf_def)
  moreover from ne k(2) have "getStrictestKind ks = Num (TypeKind_value k)"
    by (simp add: getStrictestKind_def Math_max_nonempty)
  ultimately show ?thesis by blast
qed

lemma getStrictestKind_NegInfinity_iff: "getStrictestKind ks = NegInfinity \<longleftrightarrow> ks = []"
  by (simp add: getStrictestKind_def Math_max_NegInfinity_iff)

lemma overlapping_empty_iff:
  "length (filter (\<lambda>type. indexOf ys type \<ge> 0) xs) > 0 \<longleftrightarrow> set xs \<inter> set ys \<noteq> {}"
proof -
  have "length (filter (\<lambda>type. indexOf ys type \<ge> 0) xs) > 0
        \<longleftrightarrow> set (filter (\<lambda>type. indexOf ys type \<ge> 0) xs) \<noteq> {}"
    by (simp only: length_greater_0_conv set_empty)
  then show ?thesis by (simp only: overlapping_set)
qed

text \<open>The resolver, with its array operations read as set operations.\<close>

lemma getStrictestComparableType_sets:
  "getStrictestComparableType L R =
     (if set L \<inter> set R \<noteq> {} then Some (getStrictestKind (filter (\<lambda>type. indexOf R type \<ge> 0) L))
      else if Any \<in> set L then Some (getStrictestKind R)
      else if Any \<in> set R then Some (getStrictestKind L)
      else if (NullOrUndefined \<in> set L \<and> Object \<in> set R) \<or> (NullOrUndefined \<in> set R \<and> Object \<in> set L)
        then Some (Num (TypeKind_value Object))
      else None)"
  unfolding getStrictestComparableType_def Let_def overlapping_empty_iff arrayContainsKind_iff
  by (rule refl)

text \<open>
  Claim C3. Comparability resolution is symmetric: for every pair of kind arrays
  \<open>L\<close> and \<open>R\<close> (empty ones included), resolving \<open>L\<close> against \<open>R\<close> gives the same
  result as resolving \<open>R\<close> against \<open>L\<close>.
\<close>

theorem resolver_symmetric:
  "getStrictestComparableType L R = getStrictestComparableType R L"
proof (cases "set L \<inter> set R = {}")
  case True
  then have "set R \<inter> set L = {}" by blast
  with True show ?thesis
    by (auto simp: getStrictestComparableType_sets)
next
  case False
  then have f: "set R \<inter> set L \<noteq> {}" by blast
  have "set (filter (\<lambda>type. indexOf R type \<ge> 0) L) = set (filter (\<lambda>type. indexOf L type \<ge> 0) R)"
    by (simp only: overlapping_set Int_commute)
  then have "getStrictestKind (filter (\<lambda>type. indexOf R type \<ge> 0) L)
             = getStrictestKind (filter (\<lambda>type. indexOf L type \<ge> 0) R)"
    by (rule getStrictestKind_cong_set)
  with False f show ?thesis by (simp add: getStrictestComparableType_sets)
qed

lemma overlapping_nonempty:
  "set L \<inter> set R \<noteq> {} \<Longrightarrow> filter (\<lambda>type. indexOf R type \<ge> 0) L \<noteq> []"
  using overlapping_set [of R L] by (metis set_empty)

lemma resolver_overlap:
  assumes "set L \<inter> set R \<noteq> {}"
  shows "\<exists>k. isHighestRankOf k (set L \<inter> set R)
             \<and> getStrictestComparableType L R = Some (Num (TypeKind_value k))"
proof -
  from getStrictestKind_nonempty [OF overlapping_nonempty [OF assms]] obtain k
    where "isHighestRankOf k (set (filter (\<lambda>type. indexOf R type \<ge> 0) L))"
      and "getStrictestKind (filter (\<lambda>type. indexOf R type \<ge> 0) L) = Num (TypeKind_value k)"
    by blast
  then have "isHighestRankOf k (set L \<inter> set R)
      \<and> getStrictestComparableType L R = Some (Num (TypeKind_value k))"
    using assms by (simp only: overlapping_set getStrictestComparableType_sets if_True simp_thms)
  then show ?thesis ..
qed

lemma resolver_any_left:
  assumes "set L \<inter> set R = {}" and "Any \<in> set L" and "R \<noteq> []"
  shows "\<exists>k. isHighestRankOf k (set R)
             \<and> getStrictestComparableType L R = Some (Num (TypeKind_value k))"
proof -
  from getStrictestKind_nonempty [OF assms(3)] obtain k
    where "isHighestRankOf k (set R)" and "getStrictestKind R = Num (TypeKind_value k)"
    by blast
  with assms(1,2) have "isHighestRankOf k (set R)
      \<and> getStrictestComparableType L R = Some (Num (TypeKind_value k))"
    by (simp add: getStrictestComparableType_sets)
  then show ?thesis ..
qed

lemma resolver_any_right:
  assumes "set L \<inter> set R = {}" and "Any \<in> set R" and "L \<noteq> []"
  shows "\<exists>k. isHighestRankOf k (set L)
             \<and> getStrictestComparableType L R = Some (Num (TypeKind_value k))"
proof -
  from assms(1,2) have nl: "Any \<notin> set L" by blast
  from getStrictestKind_nonempty [OF assms(3)] obtain k
    where "isHighestRankOf k (set L)" and "getStrictestKind L = Num (TypeKind_value k)"
    by blast
  with assms(1,2) nl have "isHighestRankOf k (set L)
      \<and> getStrictestComparableType L R = Some (Num (TypeKind_value k))"
    by (simp add: getStrictestComparableType_sets)
  then show ?thesis ..
qed

lemma resolver_fallback:
  assumes "set L \<inter> set R = {}" and "Any \<notin> set L" and "Any \<notin> set R"
  shows "getStrictestComparableType L R =
           (if (NullOrUndefined \<in> set L \<and> Object \<in> set R) \<or> (NullOrUndefined \<in> set R \<and> Object \<in> set L)
            then Some (Num (TypeKind_value Object)) else None)"
  using assms by (simp only: getStrictestComparableType_sets simp_thms if_False if_True)

text \<open>
  Claim C1. For non-empty kind arrays \<open>L\<close> and \<open>R\<close> the resolver follows the
  algorithm of the specification: when the two share a kind, the result is the kind of the
  highest rank among the shared ones; otherwise, when \<open>L\<close> holds \<open>Any\<close>, the kind of
  the highest rank in \<open>R\<close>, and when \<open>R\<close> holds \<open>Any\<close>, the kind of the highest rank
  in \<open>L\<close>; otherwise, when one side holds \<open>NullOrUndefined\<close> and the other
  \<open>Object\<close>, in either direction, \<open>Object\<close>; otherwise \<open>undefined\<close>.
\<close>

theorem resolver_algorithm:
  assumes "L \<noteq> []" and "R \<noteq> []"
  shows "(set L \<inter> set R \<noteq> {} \<longrightarrow>
            (\<exists>k. isHighestRankOf k (set L \<inter> set R)
                 \<and> getStrictestComparableType L R = Some (Num (TypeKind_value k))))
       \<and> (set L \<inter> set R = {} \<and> Any \<in> set L \<longrightarrow>
            (\<exists>k. isHighestRankOf k (set R)
                 \<and> getStrictestComparableType L R = Some (Num (TypeKind_value k))))
       \<and> (set L \<inter> set R = {} \<and> Any \<in> set R \<longrightarrow>
            (\<exists>k. isHighestRankOf k (set L)
                 \<and> getStrictestComparableType L R = Some (Num (TypeKind_value k))))
       \<and> (set L \<inter> set R = {} \<and> Any \<notin> set L \<and> Any \<notin> set R
            \<and> ((NullOrUndefined \<in> set L \<and> Object \<in> set R) \<or> (NullOrUndefined \<in> set R \<and> Object \<in> set L))
          \<longrightarrow> getStrictestComparableType L R = Some (Num (TypeKind_value Object)))
       \<and> (set L \<inter> set R = {} \<and> Any \<notin> set L \<and> Any \<notin> set R
            \<and> \<not> ((NullOrUndefined \<in> set L \<and> Object \<in> set R) \<or> (NullOrUndefined \<in> set R \<and> Object \<in> set L))
          \<longrightarrow> getStrictestComparableType L R = None)"
proof (intro conjI impI)
  assume "set L \<inter> set R \<noteq> {}"
  then show "\<exists>k. isHighestRankOf k (set L \<inter> set R)
                 \<and> getStrictestComparableType L R = Some (Num (TypeKind_value k))"
    by (rule resolver_overlap)
next
  assume "set L \<inter> set R = {} \<and> Any \<in> set L"
  with assms(2) show "\<exists>k. isHighestRankOf k (set R)
                 \<and> getStrictestComparableType L R = Some (Num (TypeKind_value k))"
    by (simp add: resolver_any_left)
next
  assume "set L \<inter> set R = {} \<and> Any \<in> set R"
  with assms(1) show "\<exists>k. isHighestRankOf k (set L)
                 \<and> getStrictestComparableType L R = Some (Num (TypeKind_value k))"
    by (simp add: resolver_any_right)
next
  assume a: "set L \<inter> set R = {} \<and> Any \<notin> set L \<and> Any \<notin> set R
            \<and> ((NullOrUndefined \<in> set L \<and> Object \<in> set R) \<or> (NullOrUndefined \<in> set R \<and> Object \<in> set L))"
  then have "getStrictestComparableType L R =
           (if (NullOrUndefined \<in> set L \<and> Object \<in> set R) \<or> (NullOrUndefined \<in> set R \<and> Object \<in> set L)
            then Some (Num (TypeKind_value Object)) else None)"
    by (intro resolver_fallback) simp_all
  with a show "getStrictestComparableType L R = Some (Num (TypeKind_value Object))"
    by (simp only: if_True)
next
  assume a: "set L \<inter> set R = {} \<and> Any \<notin> set L \<and> Any \<notin> set R
            \<and> \<not> ((NullOrUndefined \<in> set L \<and> Object \<in> set R) \<or> (NullOrUndefined \<in> set R \<and> Object \<in> set L))"
  then have "getStrictestComparableType L R =
           (if (NullOrUndefined \<in> set L \<and> Object \<in> set R) \<or> (NullOrUndefined \<in> set R \<and> Object \<in> set L)
            then Some (Num (TypeKind_value Object)) else None)"
    by (intro resolver_fallback) simp_all
  with a show "getStrictestComparableType L R = None"
    by (simp only: if_False)
qed

text \<open>The theorem at \<open>number | string | boolean\<close> against \<open>boolean | any | number\<close>.\<close>

theorem resolver_algorithm_witness:
  "[Number, String, Boolean] \<noteq> [] \<and> [Boolean, Any, Number] \<noteq> []
   \<and> (\<exists>k. isHighestRankOf k (set [Number, String, Boolean] \<inter> set [Boolean, Any, Number])
          \<and> getStrictestComparableType [Number, String, Boolean] [Boolean, Any, Number]
              = Some (Num (TypeKind_value k)))
   \<and> getStrictestComparableType [Number, String, Boolean] [Boolean, Any, Number] = Some (Num 4)"
  using resolver_algorithm [of "[Number, String, Boolean]" "[Boolean, Any, Number]"]
  by (simp add: getStrictestComparableType_def getStrictestKind_def)

lemma resolver_None_or_kind:
  assumes "L \<noteq> []" and "R \<noteq> []"
  shows "getStrictestComparableType L R = None
          \<or> (\<exists>k. getStrictestComparableType L R = Some (Num (TypeKind_value k)))"
proof (cases "set L \<inter> set R = {}")
  case False
  from resolver_overlap [OF False] show ?thesis by blast
next
  case disj: True
  show ?thesis
  proof (cases "Any \<in> set L")
    case True
    from resolver_any_left [OF disj True assms(2)] show ?thesis by blast
  next
    case nl: False
    show ?thesis
    proof (cases "Any \<in> set R")
      case True
      from resolver_any_right [OF disj True assms(1)] show ?thesis by blast
    next
      case False
      from resolver_fallback [OF disj nl False] show ?thesis
        by (metis (full_types))
    qed
  qed
qed

text \<open>
  Claim C9. When both kind arrays are non-empty, the result of the resolver is
  \<open>undefined\<close> or the value of one of the seven kinds, never \<open>-Infinity\<close>:
  \<open>getStrictestKind\<close> gives \<open>-Infinity\<close> on the empty array only, and no branch of the
  resolver passes it one.
\<close>

theorem resolver_result_in_range:
  assumes "L \<noteq> []" and "R \<noteq> []"
  shows "(getStrictestComparableType L R = None
          \<or> (\<exists>k. getStrictestComparableType L R = Some (Num (TypeKind_value k))))
         \<and> getStrictestComparableType L R \<noteq> Some NegInfinity
         \<and> (\<forall>ks. getStrictestKind ks = NegInfinity \<longleftrightarrow> ks = [])"
proof -
  from assms have cases: "getStrictestComparableType L R = None
          \<or> (\<exists>k. getStrictestComparableType L R = Some (Num (TypeKind_value k)))"
    by (rule resolver_None_or_kind)
  then have "getStrictestComparableType L R \<noteq> Some NegInfinity" by auto
  with cases show ?thesis by (simp add: getStrictestKind_NegInfinity_iff)
qed

text \<open>The theorem at \<open>number | string\<close> against \<open>any\<close>.\<close>

theorem resolver_result_in_range_witness:
  "[Number, String] \<noteq> [] \<and> [Any] \<noteq> []
   \<and> getStrictestComparableType [Number, String] [Any] = Some (Num (TypeKind_value String))
   \<and> getStrictestComparableType [Number, String] [Any] \<noteq> Some NegInfinity"
  using resolver_result_in_range [of "[Number, String]" "[Any]"]
  by (simp add: getStrictestComparableType_def getStrictestKind_def arrayContainsKind_def)

text \<open>
  Without the precondition the bound fails: against an empty array, \<open>any\<close> resolves
  to \<open>-Infinity\<close>.
\<close>

lemma resolver_empty_side: "getStrictestComparableType [Any] [] = Some NegInfinity"
  by (simp add: getStrictestComparableType_def getStrictestKind_def arrayContainsKind_def)

text \<open>
  Claim C10. When both kind arrays are non-empty and the resolver returns a kind, that
  kind is a member of \<open>L\<close> or of \<open>R\<close>: of both in the overlap branch, of the other
  side in the two \<open>Any\<close> branches, and in the last branch it is \<open>Object\<close>, which
  the side opposite to \<open>NullOrUndefined\<close> holds.
\<close>

theorem resolver_result_member:
  assumes "L \<noteq> []" and "R \<noteq> []"
    and "getStrictestComparableType L R = Some x"
  shows "(\<exists>k \<in> set L \<union> set R. x = Num (TypeKind_value k))
     \<and> (set L \<inter> set R \<noteq> {} \<longrightarrow> (\<exists>k \<in> set L \<inter> set R. x = Num (TypeKind_value k)))
     \<and> (set L \<inter> set R = {} \<and> Any \<in> set L \<longrightarrow> (\<exists>k \<in> set R. x = Num (TypeKind_value k)))
     \<and> (set L \<inter> set R = {} \<and> Any \<in> set R \<longrightarrow> (\<exists>k \<in> set L. x = Num (TypeKind_value k)))
     \<and> (set L \<inter> set R = {} \<and> Any \<notin> set L \<and> Any \<notin> set R \<longrightarrow>
          x = Num (TypeKind_value Object)
          \<and> ((NullOrUndefined \<in> set L \<and> Object \<in> set R) \<or> (NullOrUndefined \<in> set R \<and> Object \<in> set L)))"
proof -
  have A: "set L \<inter> set R \<noteq> {} \<longrightarrow> (\<exists>k \<in> set L \<inter> set R. x = Num (TypeKind_value k))"
  proof
    assume ne: "set L \<inter> set R \<noteq> {}"
    from resolver_overlap [OF ne] assms(3)
    show "\<exists>k \<in> set L \<inter> set R. x = Num (TypeKind_value k)"
      unfolding isHighestRankOf_def by auto
  qed
  have B: "set L \<inter> set R = {} \<and> Any \<in> set L \<longrightarrow> (\<exists>k \<in> set R. x = Num (TypeKind_value k))"
  proof
    assume a: "set L \<inter> set R = {} \<and> Any \<in> set L"
    then have "\<exists>k. isHighestRankOf k (set R)
             \<and> getStrictestComparableType L R = Some (Num (TypeKind_value k))"
      using assms(2) by (intro resolver_any_left) simp_all
    with assms(3) show "\<exists>k \<in> set R. x = Num (TypeKind_value k)"
      unfolding isHighestRankOf_def by auto
  qed
  have C: "set L \<inter> set R = {} \<and> Any \<in> set R \<longrightarrow> (\<exists>k \<in> set L. x = Num (TypeKind_value k))"
  proof
    assume a: "set L \<inter> set R = {} \<and> Any \<in> set R"
    then have "\<exists>k. isHighestRankOf k (set L)
             \<and> getStrictestComparableType L R = Some (Num (TypeKind_value k))"
      using assms(1) by (intro resolver_any_right) simp_all
    with assms(3) show "\<exists>k \<in> set L. x = Num (TypeKind_value k)"
      unfolding isHighestRankOf_def by auto
  qed
  have D: "set L \<inter> set R = {} \<and> Any \<notin> set L \<and> Any \<notin> set R \<longrightarrow>
          x = Num (TypeKind_value Object)
          \<and> ((NullOrUndefined \<in> set L \<and> Object \<in> set R) \<or> (NullOrUndefined \<in> set R \<and> Object \<in> set L))"
  proof
    assume a: "set L \<inter> set R = {} \<and> Any \<notin> set L \<and> Any \<notin> set R"
    then have "getStrictestComparableType L R =
           (if (NullOrUndefined \<in> set L \<and> Object \<in> set R) \<or> (NullOrUndefined \<in> set R \<and> Object \<in> set L)
            then Some (Num (TypeKind_value Object)) else None)"
      by (intro resolver_fallback) simp_all
    with assms(3) show "x = Num (TypeKind_value Object)
          \<and> ((NullOrUndefined \<in> set L \<and> Object \<in> set R) \<or> (NullOrUndefined \<in> set R \<and> Object \<in> set L))"
      by (simp only: split: if_splits) auto
  qed
  have "\<exists>k \<in> set L \<union> set R. x = Num (TypeKind_value k)"
  proof (cases "set L \<inter> set R = {}")
    case False
    with A show ?thesis by blast
  next
    case True
    show ?thesis
    proof (cases "Any \<in> set L \<or> Any \<in> set R")
      case True
      with \<open>set L \<inter> set R = {}\<close> B C show ?thesis by blast
    next
      case False
      with \<open>set L \<inter> set R = {}\<close> D show ?thesis by blast
    qed
  qed
  with A B C D show ?thesis by blast
qed

text \<open>The theorem at \<open>null | number\<close> against \<open>object\<close>.\<close>

theorem resolver_result_member_witness:
  "[NullOrUndefined, Number] \<noteq> [] \<and> [Object] \<noteq> []
   \<and> getStrictestComparableType [NullOrUndefined, Number] [Object] = Some (Num 6)
   \<and> (\<exists>k \<in> set [NullOrUndefined, Number] \<union> set [Object]. Num 6 = Num (TypeKind_value k))"
proof -
  have r: "getStrictestComparableType [NullOrUndefined, Number] [Object] = Some (Num 6)"
    by (simp add: getStrictestComparableType_def arrayContainsKind_def)
  from resolver_result_member [OF _ _ r] show ?thesis using r by simp
qed

section \<open>Properties of the classification\<close>

lemmas TypeFlags_defs =
  TypeFlags_Any_def TypeFlags_String_def TypeFlags_Number_def TypeFlags_Boolean_def
  TypeFlags_StringLiteral_def TypeFlags_NumberLiteral_def TypeFlags_BooleanLiteral_def
  TypeFlags_Void_def TypeFlags_Undefined_def TypeFlags_Null_def TypeFlags_Union_def
  TypeFlags_BooleanLike_def

lemma isTypeFlagSet_OR:
  "isTypeFlagSet t (a OR b) \<longleftrightarrow> isTypeFlagSet t a \<or> isTypeFlagSet t b"
proof -
  have "flags t AND (a OR b) = (flags t AND a) OR (flags t AND b)"
    by (rule bit.conj_disj_distrib)
  then show ?thesis by (simp add: isTypeFlagSet_def or_eq_0_iff)
qed

lemma getKind_rules:
  "getKind t =
     (if stringLike t then String
      else if numericLike t then Number
      else if booleanLike t then Boolean
      else if nullUndefinedOrVoid t then NullOrUndefined
      else if unconstrained t then Any
      else Object)"
  by (simp add: getKind_def Let_def isTypeFlagSet_OR TypeFlags_BooleanLike_def stringLike_def
      numericLike_def booleanLike_def nullUndefinedOrVoid_def unconstrained_def)

text \<open>
  Claim C4. \<open>getKind\<close> gives every type one kind, the kind of the first rule that
  matches in the order string-like, numeric-like, boolean-like, null/undefined/void,
  any, and \<open>Object\<close> when none matches; it never gives \<open>Enum\<close>.
\<close>

theorem getKind_priority_order:
  "getKind t = firstMatch classificationRules t \<and> getKind t \<noteq> Enum"
  by (simp add: getKind_rules classificationRules_def)


lemma fold_insert_firstOccurrences:
  "fold (\<lambda>x s. if x \<in> set s then s else s @ [x]) xs acc
   = acc @ filter (\<lambda>y. y \<notin> set acc) (firstOccurrences xs)"
proof (induction xs arbitrary: acc)
  case Nil
  show ?case by simp
next
  case (Cons x xs)
  show ?case
  proof (cases "x \<in> set acc")
    case True
    have "filter (\<lambda>y. y \<notin> set acc) (filter (\<lambda>y. y \<noteq> x) (firstOccurrences xs))
          = filter (\<lambda>y. y \<notin> set acc) (firstOccurrences xs)"
      using True by (auto intro: filter_cong)
    with True Cons.IH [of acc] show ?thesis by simp
  next
    case False
    have "filter (\<lambda>y. y \<notin> set (acc @ [x])) (firstOccurrences xs)
          = filter (\<lambda>y. y \<notin> set acc) (filter (\<lambda>y. y \<noteq> x) (firstOccurrences xs))"
      by (auto intro: filter_cong)
    with False Cons.IH [of "acc @ [x]"] show ?thesis by simp
  qed
qed

lemma Array_from_Set_firstOccurrences: "Array_from_Set xs = firstOccurrences xs"
  by (simp add: Array_from_Set_def fold_insert_firstOccurrences)

lemma set_firstOccurrences: "set (firstOccurrences xs) = set xs"
  by (induction xs) auto

lemma distinct_firstOccurrences: "distinct (firstOccurrences xs)"
  by (induction xs) (auto simp: set_firstOccurrences)

lemma firstOccurrences_Nil_iff: "firstOccurrences xs = [] \<longleftrightarrow> xs = []"
  by (cases xs) simp_all

text \<open>
  Claim C5. \<open>getKinds\<close> is a total function. For a type that is not a union it
  gives the one-element array of the type's kind; for a union it gives the kinds of the
  members without duplicates, each at its first occurrence. The result is non-empty for
  every type the compiler builds (\<open>wellFormed\<close>); it is empty only for a union without
  members.
\<close>

theorem getKinds_total_nonempty:
  "(\<not> isUnionType t \<longrightarrow> getKinds t = [getKind t])
   \<and> (isUnionType t \<longrightarrow>
        getKinds t = firstOccurrences (map getKind (types t))
        \<and> distinct (getKinds t)
        \<and> set (getKinds t) = getKind ` set (types t))
   \<and> (wellFormed t \<longrightarrow> getKinds t \<noteq> [])
   \<and> (getKinds t = [] \<longleftrightarrow> isUnionType t \<and> types t = [])"
  by (simp add: getKinds_def Array_from_Set_firstOccurrences set_firstOccurrences
      distinct_firstOccurrences firstOccurrences_Nil_iff wellFormed_def)

text \<open>The theorem at the union \<open>string | null | "a"\<close> and at \<open>number\<close>.\<close>

theorem getKinds_total_nonempty_witness:
  "isUnionType (Type TypeFlags_Union [Type TypeFlags_String [], Type TypeFlags_Null [], Type TypeFlags_StringLiteral []])
   \<and> wellFormed (Type TypeFlags_Union [Type TypeFlags_String [], Type TypeFlags_Null [], Type TypeFlags_StringLiteral []])
   \<and> getKinds (Type TypeFlags_Union [Type TypeFlags_String [], Type TypeFlags_Null [], Type TypeFlags_StringLiteral []])
       = [String, NullOrUndefined]
   \<and> \<not> isUnionType (Type TypeFlags_Number []) \<and> getKinds (Type TypeFlags_Number []) = [Number]"
  using getKinds_total_nonempty [of "Type TypeFlags_Union [Type TypeFlags_String [], Type TypeFlags_Null [], Type TypeFlags_StringLiteral []]"]
    getKinds_total_nonempty [of "Type TypeFlags_Number []"]
  by (simp add: isUnionType_def wellFormed_def getKind_def isTypeFlagSet_def TypeFlags_defs)

section \<open>Properties of the listener\<close>

lemma typeNames_at_kind: "typeNames_at (Num (TypeKind_value k)) = Some (kindName k)"
  by (cases k) (simp_all add: typeNames_def)

lemma join_typeNames:
  "join (map (\<lambda>type. typeNames_at (Num (TypeKind_value type))) ks) '' | '' = joinedNames ks"
  by (induction ks rule: joinedNames.induct)
    (simp_all add: typeNames_at_kind del: typeNames_at.simps)

lemma isEqualityOperator_iff: "isEqualityOperator op \<longleftrightarrow> operatorClass op = Some Equality"
  by (simp add: isEqualityOperator_def)

lemma isComparisonOperator_iff: "isComparisonOperator op \<longleftrightarrow> operatorClass op \<noteq> None"
  by (simp add: isComparisonOperator_def isEqualityOperator_def)

lemma isComparisonOperator_eight:
  "isComparisonOperator op \<longleftrightarrow>
     op \<in> {''=='', ''!='', ''==='', ''!=='', ''<'', ''>'', ''<='', ''>=''}"
  by (auto simp: isComparisonOperator_def isEqualityOperator_def)

lemma checkEquality_kind:
  "checkEquality cfg n (Num (TypeKind_value k)) =
     (case decide k Equality cfg of
        Allow \<Rightarrow> []
      | Reject \<Rightarrow>
          [\<lparr>node = n, messageId = invalidTypeForOperator,
            data = [(''comparator'', Some (operator n)), (''type'', Some (kindName k))]\<rparr>])"
  by (cases k)
    (simp_all add: checkEquality_def switch_case_def invalidTypeForOperator_report_def
      typeNames_def)

lemma checkOrdering_kind:
  "checkOrdering cfg n (Num (TypeKind_value k)) =
     (case decide k Ordering cfg of
        Allow \<Rightarrow> []
      | Reject \<Rightarrow>
          [\<lparr>node = n, messageId = invalidTypeForOperator,
            data = [(''comparator'', Some (operator n)), (''type'', Some (kindName k))]\<rparr>])"
  by (cases k)
    (simp_all add: checkOrdering_def switch_case_def invalidTypeForOperator_report_def
      typeNames_def)

lemma checkOperator_kind:
  assumes "operatorClass (operator n) = Some c"
  shows "checkOperator cfg n (Num (TypeKind_value k)) =
     (case decide k c cfg of
        Allow \<Rightarrow> []
      | Reject \<Rightarrow>
          [\<lparr>node = n, messageId = invalidTypeForOperator,
            data = [(''comparator'', Some (operator n)), (''type'', Some (kindName k))]\<rparr>])"
proof (cases c)
  case Equality
  with assms have "isEqualityOperator (operator n)" by (simp only: isEqualityOperator_iff)
  then show ?thesis
    unfolding checkOperator_def Let_def Equality by (simp only: if_True checkEquality_kind)
next
  case Ordering
  with assms have "\<not> isEqualityOperator (operator n)" by (simp only: isEqualityOperator_iff) simp
  then show ?thesis
    unfolding checkOperator_def Let_def Ordering by (simp only: if_False checkOrdering_kind)
qed

text \<open>
  Claim C2. For every kind, as the governing kind, and every configuration, the policy of
  the listener is the specification's table \<open>decide\<close>: with an equality operator
  \<open>Any\<close>, \<open>Number\<close>, \<open>Enum\<close>, \<open>String\<close> and \<open>Boolean\<close> pass, and
  \<open>NullOrUndefined\<close> and \<open>Object\<close> are reported unless
  \<open>allowObjectEqualComparison\<close> is set; with an ordering operator \<open>Any\<close> and
  \<open>Number\<close> pass, \<open>String\<close> is reported unless \<open>allowStringOrderComparison\<close> is
  set, and \<open>Boolean\<close>, \<open>Enum\<close>, \<open>NullOrUndefined\<close> and \<open>Object\<close> are reported
  under every configuration. A rejection is one \<open>invalidTypeForOperator\<close> report.
\<close>

theorem operator_policy_tables:
  assumes "operatorClass (operator n) = Some c"
  shows "checkOperator cfg n (Num (TypeKind_value k)) =
     (case decide k c cfg of
        Allow \<Rightarrow> []
      | Reject \<Rightarrow>
          [\<lparr>node = n, messageId = invalidTypeForOperator,
            data = [(''comparator'', Some (operator n)), (''type'', Some (kindName k))]\<rparr>])"
  using assms by (rule checkOperator_kind)

text \<open>The theorem at \<open>"a" < "b"\<close>, without and with \<open>allowStringOrderComparison\<close>.\<close>

theorem operator_policy_tables_witness:
  "operatorClass (operator \<lparr>operator = ''<'', left = (), right = ()\<rparr>) = Some Ordering
   \<and> checkOperator \<lparr>allowObjectEqualComparison = False, allowStringOrderComparison = False\<rparr>
        \<lparr>operator = ''<'', left = (), right = ()\<rparr> (Num (TypeKind_value String))
      = [\<lparr>node = \<lparr>operator = ''<'', left = (), right = ()\<rparr>, messageId = invalidTypeForOperator,
          data = [(''comparator'', Some ''<''), (''type'', Some ''string'')]\<rparr>]
   \<and> checkOperator \<lparr>allowObjectEqualComparison = False, allowStringOrderComparison = True\<rparr>
        \<lparr>operator = ''<'', left = (), right = ()\<rparr> (Num (TypeKind_value String)) = []"
proof -
  have c: "operatorClass (operator \<lparr>operator = ''<'', left = (), right = ()\<rparr>) = Some Ordering"
    by simp
  from operator_policy_tables [OF c, of _ String] c show ?thesis by simp
qed

text \<open>
  Claim C7. On a binary expression whose operator is none of the eight comparison
  operators the listener does nothing: it asks for no type, so that nothing is
  classified, resolved or checked, and it reports nothing.
\<close>

theorem non_comparison_not_evaluated:
  assumes "operator n \<notin> {''=='', ''!='', ''==='', ''!=='', ''<'', ''>'', ''<='', ''>=''}"
  shows "BinaryExpression getNodeType cfg n = []"
  using assms unfolding BinaryExpression_def isComparisonOperator_eight by (simp only: if_False)

text \<open>The theorem at an addition.\<close>

theorem non_comparison_not_evaluated_witness:
  "operator \<lparr>operator = ''+'', left = (), right = ()\<rparr>
     \<notin> {''=='', ''!='', ''==='', ''!=='', ''<'', ''>'', ''<='', ''>=''}
   \<and> BinaryExpression (\<lambda>u. Type TypeFlags_String [])
       \<lparr>allowObjectEqualComparison = False, allowStringOrderComparison = False\<rparr>
       \<lparr>operator = ''+'', left = (), right = ()\<rparr> = []"
proof -
  have h: "operator \<lparr>operator = ''+'', left = (), right = ()\<rparr>
     \<notin> {''=='', ''!='', ''==='', ''!=='', ''<'', ''>'', ''<='', ''>=''}" by simp
  from non_comparison_not_evaluated [OF h] h show ?thesis by blast
qed

lemma reports_map_ContextReport: "reports (map ContextReport ds) = ds"
  by (induction ds) simp_all

lemma reports_BinaryExpression:
  assumes "operatorClass (operator n) = Some c"
  shows "reports (BinaryExpression g cfg n) =
     (case getStrictestComparableType (getKinds (g (left n))) (getKinds (g (right n))) of
        None \<Rightarrow>
          [\<lparr>node = n, messageId = nonComparableTypes,
            data = [(''typesLeft'', Some (joinedNames (getKinds (g (left n))))),
                    (''typesRight'', Some (joinedNames (getKinds (g (right n)))))]\<rparr>]
      | Some x \<Rightarrow> checkOperator cfg n x)"
proof -
  from assms have "isComparisonOperator (operator n)"
    by (simp only: isComparisonOperator_iff) simp
  then show ?thesis
    unfolding BinaryExpression_def Let_def
    by (simp only: if_True reports.simps append_Cons append_Nil reports_map_ContextReport
        join_typeNames)
qed

lemma checkEquality_length: "length (checkEquality cfg n x) \<le> 1"
  by (simp add: checkEquality_def)

lemma checkOrdering_length: "length (checkOrdering cfg n x) \<le> 1"
  by (simp add: checkOrdering_def)

lemma checkOperator_length: "length (checkOperator cfg n x) \<le> 1"
  using checkEquality_length [of cfg n x] checkOrdering_length [of cfg n x]
  by (simp add: checkOperator_def)

lemma reports_length: "length (reports (BinaryExpression g cfg n)) \<le> 1"
proof (cases "isComparisonOperator (operator n)")
  case True
  have "length (checkOperator cfg n x) \<le> Suc 0" for x
    using checkOperator_length [of cfg n x] by simp
  with True show ?thesis
    unfolding BinaryExpression_def Let_def
    by (simp add: reports_map_ContextReport split: option.split)
next
  case False
  then show ?thesis by (simp add: BinaryExpression_def)
qed

lemma getKinds_nonempty: "wellFormed t \<Longrightarrow> getKinds t \<noteq> []"
  by (simp add: getKinds_def Array_from_Set_firstOccurrences firstOccurrences_Nil_iff
      wellFormed_def split: if_splits)

text \<open>
  Claim C6. The listener reports at most once for an expression. For a comparison
  operator: when the resolution is \<open>undefined\<close> it reports
  \<open>nonComparableTypes\<close> once, with the kind names of each side joined by \<open>" | "\<close>,
  and nothing else; when the resolution is a kind and the policy rejects, it reports
  \<open>invalidTypeForOperator\<close> once, with the operator and the name of the kind; when
  the policy allows, it reports nothing. For operand types as the compiler builds them a
  report is made exactly when the resolution is \<open>undefined\<close> or the policy rejects.
\<close>

theorem evaluator_diagnostics:
  "length (reports (BinaryExpression g cfg n)) \<le> 1
   \<and> (operatorClass (operator n) = Some c \<longrightarrow>
      (getStrictestComparableType (getKinds (g (left n))) (getKinds (g (right n))) = None \<longrightarrow>
         reports (BinaryExpression g cfg n) =
           [\<lparr>node = n, messageId = nonComparableTypes,
             data = [(''typesLeft'', Some (joinedNames (getKinds (g (left n))))),
                     (''typesRight'', Some (joinedNames (getKinds (g (right n)))))]\<rparr>])
      \<and> (\<forall>k. getStrictestComparableType (getKinds (g (left n))) (getKinds (g (right n)))
               = Some (Num (TypeKind_value k)) \<longrightarrow>
            reports (BinaryExpression g cfg n) =
              (case decide k c cfg of
                 Allow \<Rightarrow> []
               | Reject \<Rightarrow>
                   [\<lparr>node = n, messageId = invalidTypeForOperator,
                     data = [(''comparator'', Some (operator n)),
                             (''type'', Some (kindName k))]\<rparr>]))
      \<and> (wellFormed (g (left n)) \<and> wellFormed (g (right n)) \<longrightarrow>
           (reports (BinaryExpression g cfg n) \<noteq> [] \<longleftrightarrow>
              getStrictestComparableType (getKinds (g (left n))) (getKinds (g (right n))) = None
              \<or> (\<exists>k. getStrictestComparableType (getKinds (g (left n))) (getKinds (g (right n)))
                         = Some (Num (TypeKind_value k))
                      \<and> decide k c cfg = Reject))))"
proof (intro conjI impI allI)
  show "length (reports (BinaryExpression g cfg n)) \<le> 1" by (rule reports_length)
next
  assume c: "operatorClass (operator n) = Some c"
    and r: "getStrictestComparableType (getKinds (g (left n))) (getKinds (g (right n))) = None"
  show "reports (BinaryExpression g cfg n) =
           [\<lparr>node = n, messageId = nonComparableTypes,
             data = [(''typesLeft'', Some (joinedNames (getKinds (g (left n))))),
                     (''typesRight'', Some (joinedNames (getKinds (g (right n)))))]\<rparr>]"
    by (simp only: reports_BinaryExpression [OF c] r option.case)
next
  fix k
  assume c: "operatorClass (operator n) = Some c"
    and r: "getStrictestComparableType (getKinds (g (left n))) (getKinds (g (right n)))
               = Some (Num (TypeKind_value k))"
  show "reports (BinaryExpression g cfg n) =
              (case decide k c cfg of
                 Allow \<Rightarrow> []
               | Reject \<Rightarrow>
                   [\<lparr>node = n, messageId = invalidTypeForOperator,
                     data = [(''comparator'', Some (operator n)),
                             (''type'', Some (kindName k))]\<rparr>])"
    by (simp only: reports_BinaryExpression [OF c] r option.case checkOperator_kind [OF c])
next
  assume c: "operatorClass (operator n) = Some c"
    and wf: "wellFormed (g (left n)) \<and> wellFormed (g (right n))"
  let ?res = "getStrictestComparableType (getKinds (g (left n))) (getKinds (g (right n)))"
  from wf have "getKinds (g (left n)) \<noteq> []" "getKinds (g (right n)) \<noteq> []"
    by (simp_all add: getKinds_nonempty)
  then have alt: "?res = None \<or> (\<exists>k. ?res = Some (Num (TypeKind_value k)))"
    by (rule resolver_None_or_kind)
  show "reports (BinaryExpression g cfg n) \<noteq> [] \<longleftrightarrow>
              ?res = None \<or> (\<exists>k. ?res = Some (Num (TypeKind_value k)) \<and> decide k c cfg = Reject)"
  proof (cases "?res = None")
    case True
    then show ?thesis by (simp add: reports_BinaryExpression [OF c])
  next
    case False
    with alt obtain k where kind: "?res = Some (Num (TypeKind_value k))" by auto
    have "reports (BinaryExpression g cfg n) \<noteq> [] \<longleftrightarrow> decide k c cfg = Reject"
      by (simp add: reports_BinaryExpression [OF c] kind checkOperator_kind [OF c]
          split: decision.split)
    moreover have "(\<exists>j. Some (Num (TypeKind_value k)) = Some (Num (TypeKind_value j))
                       \<and> decide j c cfg = Reject) \<longleftrightarrow> decide k c cfg = Reject"
      by (auto simp: TypeKind_value_inj)
    ultimately show ?thesis by (simp only: kind option.distinct simp_thms)
  qed
qed


text \<open>The theorem at \<open>1 == "a"\<close> and at \<open>"a" < "b"\<close>, under the default configuration.\<close>

theorem evaluator_diagnostics_witness:
  "operatorClass (operator \<lparr>operator = ''=='', left = True, right = False\<rparr>) = Some Equality
   \<and> wellFormed (Type TypeFlags_Number []) \<and> wellFormed (Type TypeFlags_String [])
   \<and> getStrictestComparableType (getKinds (Type TypeFlags_Number []))
         (getKinds (Type TypeFlags_String [])) = None
   \<and> reports (BinaryExpression (\<lambda>u. if u then Type TypeFlags_Number [] else Type TypeFlags_String [])
         \<lparr>allowObjectEqualComparison = False, allowStringOrderComparison = False\<rparr>
         \<lparr>operator = ''=='', left = True, right = False\<rparr>)
       = [\<lparr>node = \<lparr>operator = ''=='', left = True, right = False\<rparr>,
           messageId = nonComparableTypes,
           data = [(''typesLeft'', Some ''number''), (''typesRight'', Some ''string'')]\<rparr>]
   \<and> operatorClass (operator \<lparr>operator = ''<'', left = False, right = False\<rparr>) = Some Ordering
   \<and> getStrictestComparableType (getKinds (Type TypeFlags_String []))
         (getKinds (Type TypeFlags_String [])) = Some (Num (TypeKind_value String))
   \<and> reports (BinaryExpression (\<lambda>u. if u then Type TypeFlags_Number [] else Type TypeFlags_String [])
         \<lparr>allowObjectEqualComparison = False, allowStringOrderComparison = False\<rparr>
         \<lparr>operator = ''<'', left = False, right = False\<rparr>)
       = [\<lparr>node = \<lparr>operator = ''<'', left = False, right = False\<rparr>,
           messageId = invalidTypeForOperator,
           data = [(''comparator'', Some ''<''), (''type'', Some ''string'')]\<rparr>]"
proof -
  have k: "getKinds (Type TypeFlags_Number []) = [Number]" "getKinds (Type TypeFlags_String []) = [String]"
    by (simp_all add: getKinds_def getKind_def isUnionType_def isTypeFlagSet_def TypeFlags_defs)
  have wf: "wellFormed (Type TypeFlags_Number [])" "wellFormed (Type TypeFlags_String [])"
    by (simp_all add: wellFormed_def isUnionType_def TypeFlags_defs)
  have r: "getStrictestComparableType [Number] [String] = None"
    "getStrictestComparableType [String] [String] = Some (Num (TypeKind_value String))"
    by (simp_all add: getStrictestComparableType_def getStrictestKind_def arrayContainsKind_def)
  have c: "operatorClass (operator \<lparr>operator = ''=='', left = True, right = False\<rparr>) = Some Equality"
    "operatorClass (operator \<lparr>operator = ''<'', left = False, right = False\<rparr>) = Some Ordering"
    by simp_all
  note incomparable =
    evaluator_diagnostics
      [of "\<lambda>u. if u then Type TypeFlags_Number [] else Type TypeFlags_String []"
          "\<lparr>allowObjectEqualComparison = False, allowStringOrderComparison = False\<rparr>"
          "\<lparr>operator = ''=='', left = True, right = False\<rparr>" Equality,
       THEN conjunct2, THEN mp, OF c(1), THEN conjunct1]
  note rejected =
    evaluator_diagnostics
      [of "\<lambda>u. if u then Type TypeFlags_Number [] else Type TypeFlags_String []"
          "\<lparr>allowObjectEqualComparison = False, allowStringOrderComparison = False\<rparr>"
          "\<lparr>operator = ''<'', left = False, right = False\<rparr>" Ordering,
       THEN conjunct2, THEN mp, OF c(2), THEN conjunct2, THEN conjunct1, THEN spec, of String]
  from incomparable rejected c show ?thesis
    by (simp add: k wf r del: operatorClass.simps)
qed

section \<open>Properties of the class-name-casing rule\<close>

lemma codeUnit_values:
  "codeUnit CHR ''A'' = 65" "codeUnit CHR ''Z'' = 90"
  "codeUnit CHR ''a'' = 97" "codeUnit CHR ''z'' = 122"
  "codeUnit CHR ''0'' = 48" "codeUnit CHR ''9'' = 57"
  by (simp_all add: codeUnit_def)

lemma inClass_upper: "inClass [(codeUnit CHR ''A'', codeUnit CHR ''Z'')] c \<longleftrightarrow> upperCase c"
  by (simp add: inClass_def upperCase_def codeUnit_values word_le_nat_alt)

lemma inClass_alnum:
  "inClass [(codeUnit CHR ''0'', codeUnit CHR ''9''), (codeUnit CHR ''A'', codeUnit CHR ''Z''),
            (codeUnit CHR ''a'', codeUnit CHR ''z'')] c
   \<longleftrightarrow> alphaNumeric c"
  by (auto simp: inClass_def alphaNumeric_def codeUnit_values word_le_nat_alt)

lemma inClass_alnum_fun:
  "inClass [(codeUnit CHR ''0'', codeUnit CHR ''9''), (codeUnit CHR ''A'', codeUnit CHR ''Z''),
            (codeUnit CHR ''a'', codeUnit CHR ''z'')] = alphaNumeric"
  by (rule ext) (rule inClass_alnum)

lemma regexp_test_star: "regexp_test [(cls, ZeroOrMore)] s \<longleftrightarrow> list_all (inClass cls) s"
  by (induction s) simp_all

lemma regexp_test_once_star:
  "regexp_test [(a, Once), (b, ZeroOrMore)] s
   \<longleftrightarrow> (case s of [] \<Rightarrow> False | c # cs \<Rightarrow> inClass a c \<and> list_all (inClass b) cs)"
  by (cases s) (simp_all add: regexp_test_star del: regexp_test.simps(3))

lemma isPascalCase_iff: "isPascalCase n \<longleftrightarrow> matchesPascalCase (ToString n)"
  unfolding isPascalCase_def matchesPascalCase_def regexp_test_once_star
  by (simp add: inClass_upper inClass_alnum_fun split: list.split)

lemma isPascalCase_Some: "isPascalCase (Some s) \<longleftrightarrow> matchesPascalCase s"
  by (simp add: isPascalCase_iff)

lemma isPascalCase_undefined: "\<not> isPascalCase None"
  by (simp add: isPascalCase_iff matchesPascalCase_def codeUnits_def codeUnit_def upperCase_def)

lemma report_resolved:
  "report decl (Some p) =
     Inr \<lparr>report_node = p,
          message = ''{{friendlyName}} '' @ [CHR 0x27] @ ''{{name}}'' @ [CHR 0x27]
                    @ '' must be PascalCased.'',
          friendlyName =
            (if nodeType decl = ''ClassDeclaration'' \<or> nodeType decl = ''ClassExpression''
             then (if abstract decl then ''Abstract class'' else ''Class'')
             else if nodeType decl = ''TSInterfaceDeclaration'' then ''Interface''
             else nodeType decl),
          reported_name = Pattern_name p\<rparr>"
  by (simp add: report_def Let_def)

lemma report_own_id:
  "id_node decl = Some i \<Longrightarrow> report decl None = report decl (Some (Identifier_node i))"
  by (simp add: report_def Let_def)

text \<open>
  What the two listeners do. A declaration of one of the three types is reported exactly
  when it has a name that fails the regular expression. A variable declarator whose
  initialiser is an anonymous class expression is reported, when its \<open>id\<close> is an
  identifier, exactly when the identifier's name fails the regular expression, and, when its
  \<open>id\<close> is an object or array pattern, always, whatever identifiers the pattern binds,
  with the name \<open>undefined\<close>.
\<close>

lemma casing_rule_listeners:
  "(nodeType d \<in> {''ClassDeclaration'', ''ClassExpression'', ''TSInterfaceDeclaration''} \<longrightarrow>
      (id_node d = None \<longrightarrow> visit (DeclarationNode d) = Inr [])
      \<and> (\<forall>i. id_node d = Some i \<longrightarrow>
            visit (DeclarationNode d) =
              Inr (if matchesPascalCase (name i) then []
                   else [\<lparr>report_node = Identifier_node i,
                          message = ''{{friendlyName}} '' @ [CHR 0x27] @ ''{{name}}'' @ [CHR 0x27]
                                    @ '' must be PascalCased.'',
                          friendlyName =
                            (if nodeType d = ''TSInterfaceDeclaration'' then ''Interface''
                             else if abstract d then ''Abstract class'' else ''Class''),
                          reported_name = Some (name i)\<rparr>])))
   \<and> (nodeType (init v) = ''ClassExpression'' \<longrightarrow>
      (id_node (init v) \<noteq> None \<or> declarator_id v = None \<longrightarrow>
         visit (VariableDeclaratorNode v) = Inr [])
      \<and> (\<forall>i. id_node (init v) = None \<and> declarator_id v = Some (Identifier_node i) \<longrightarrow>
            visit (VariableDeclaratorNode v) =
              Inr (if matchesPascalCase (name i) then []
                   else [\<lparr>report_node = Identifier_node i,
                          message = ''{{friendlyName}} '' @ [CHR 0x27] @ ''{{name}}'' @ [CHR 0x27]
                                    @ '' must be PascalCased.'',
                          friendlyName = (if abstract (init v) then ''Abstract class'' else ''Class''),
                          reported_name = Some (name i)\<rparr>]))
      \<and> (\<forall>p. id_node (init v) = None \<and> declarator_id v = Some p \<and> Pattern_name p = None \<longrightarrow>
            visit (VariableDeclaratorNode v) =
              Inr [\<lparr>report_node = p,
                     message = ''{{friendlyName}} '' @ [CHR 0x27] @ ''{{name}}'' @ [CHR 0x27]
                               @ '' must be PascalCased.'',
                     friendlyName = (if abstract (init v) then ''Abstract class'' else ''Class''),
                     reported_name = None\<rparr>]))"
proof (intro conjI impI allI)
  assume "nodeType d \<in> {''ClassDeclaration'', ''ClassExpression'', ''TSInterfaceDeclaration''}"
    and "id_node d = None"
  then show "visit (DeclarationNode d) = Inr []"
    by (auto simp: declarationListener_def)
next
  fix i
  assume t: "nodeType d \<in> {''ClassDeclaration'', ''ClassExpression'', ''TSInterfaceDeclaration''}"
    and i: "id_node d = Some i"
  from t have v: "visit (DeclarationNode d) = declarationListener d" by auto
  from t i show "visit (DeclarationNode d) =
              Inr (if matchesPascalCase (name i) then []
                   else [\<lparr>report_node = Identifier_node i,
                          message = ''{{friendlyName}} '' @ [CHR 0x27] @ ''{{name}}'' @ [CHR 0x27]
                                    @ '' must be PascalCased.'',
                          friendlyName =
                            (if nodeType d = ''TSInterfaceDeclaration'' then ''Interface''
                             else if abstract d then ''Abstract class'' else ''Class''),
                          reported_name = Some (name i)\<rparr>])"
    unfolding v declarationListener_def
    by (auto simp: isPascalCase_Some report_own_id report_resolved)
next
  assume "nodeType (init v) = ''ClassExpression''"
    and "id_node (init v) \<noteq> None \<or> declarator_id v = None"
  then show "visit (VariableDeclaratorNode v) = Inr []"
    by (auto simp: variableDeclaratorListener_def Let_def split: option.split)
next
  fix i
  assume t: "nodeType (init v) = ''ClassExpression''"
    and i: "id_node (init v) = None \<and> declarator_id v = Some (Identifier_node i)"
  then show "visit (VariableDeclaratorNode v) =
              Inr (if matchesPascalCase (name i) then []
                   else [\<lparr>report_node = Identifier_node i,
                          message = ''{{friendlyName}} '' @ [CHR 0x27] @ ''{{name}}'' @ [CHR 0x27]
                                    @ '' must be PascalCased.'',
                          friendlyName = (if abstract (init v) then ''Abstract class'' else ''Class''),
                          reported_name = Some (name i)\<rparr>])"
    by (simp add: variableDeclaratorListener_def Let_def isPascalCase_Some report_resolved)
next
  fix p
  assume t: "nodeType (init v) = ''ClassExpression''"
    and p: "id_node (init v) = None \<and> declarator_id v = Some p \<and> Pattern_name p = None"
  then show "visit (VariableDeclaratorNode v) =
              Inr [\<lparr>report_node = p,
                     message = ''{{friendlyName}} '' @ [CHR 0x27] @ ''{{name}}'' @ [CHR 0x27]
                               @ '' must be PascalCased.'',
                     friendlyName = (if abstract (init v) then ''Abstract class'' else ''Class''),
                     reported_name = None\<rparr>]"
    by (simp add: variableDeclaratorListener_def Let_def isPascalCase_undefined report_resolved)
qed

lemma matchesPascalCase_Foo: "matchesPascalCase (codeUnits ''Foo'')"
  by (simp add: matchesPascalCase_def codeUnits_def codeUnit_def upperCase_def alphaNumeric_def)

text \<open>
  Claim C8. The casing rule is to report a declaration exactly when its bound identifier
  fails \<open>^[A-Z][0-9A-Za-z]*$\<close>, and a report is to carry the offending identifier.
  For a variable whose initialiser is an anonymous class expression the listener does so
  when the declarator's \<open>id\<close> is an identifier: \<open>const Foo = class {}\<close> is not
  reported. When the \<open>id\<close> is a destructuring pattern it does not:
  \<open>const { Foo } = class {}\<close>, whose only bound identifier \<open>Foo\<close> matches the
  regular expression, is reported, and so is \<open>const {} = class {}\<close>, which binds no
  identifier; both reports carry the name \<open>undefined\<close>.
\<close>

theorem casing_rule_destructuring_reported:
  "visit (VariableDeclaratorNode
        \<lparr>declarator_id = Some (Identifier_node \<lparr>name = codeUnits ''Foo''\<rparr>),
         init = \<lparr>nodeType = ''ClassExpression'', id_node = None, abstract = False\<rparr>\<rparr>)
       = Inr []
   \<and> boundIdentifiers (ObjectPattern [Identifier_node \<lparr>name = codeUnits ''Foo''\<rparr>])
       = [\<lparr>name = codeUnits ''Foo''\<rparr>]
   \<and> matchesPascalCase (codeUnits ''Foo'')
   \<and> visit (VariableDeclaratorNode
        \<lparr>declarator_id = Some (ObjectPattern [Identifier_node \<lparr>name = codeUnits ''Foo''\<rparr>]),
         init = \<lparr>nodeType = ''ClassExpression'', id_node = None, abstract = False\<rparr>\<rparr>)
       = Inr [\<lparr>report_node = ObjectPattern [Identifier_node \<lparr>name = codeUnits ''Foo''\<rparr>],
                message = ''{{friendlyName}} '' @ [CHR 0x27] @ ''{{name}}'' @ [CHR 0x27]
                          @ '' must be PascalCased.'',
                friendlyName = ''Class'', reported_name = None\<rparr>]
   \<and> boundIdentifiers (ObjectPattern []) = []
   \<and> visit (VariableDeclaratorNode
        \<lparr>declarator_id = Some (ObjectPattern []),
         init = \<lparr>nodeType = ''ClassExpression'', id_node = None, abstract = False\<rparr>\<rparr>)
       = Inr [\<lparr>report_node = ObjectPattern [],
                message = ''{{friendlyName}} '' @ [CHR 0x27] @ ''{{name}}'' @ [CHR 0x27]
                          @ '' must be PascalCased.'',
                friendlyName = ''Class'', reported_name = None\<rparr>]"
  by (simp add: matchesPascalCase_Foo variableDeclaratorListener_def Let_def
      isPascalCase_undefined isPascalCase_Some report_resolved)

text \<open>
  The scenarios of the specification: \<open>class foo {}\<close>, \<open>class Foo {}\<close>,
  \<open>export default class {}\<close> and \<open>const x = class {}\<close>.
\<close>

lemma casing_rule_examples:
  "visit (DeclarationNode
      \<lparr>nodeType = ''ClassDeclaration'', id_node = Some \<lparr>name = codeUnits ''foo''\<rparr>, abstract = False\<rparr>)
     = Inr [\<lparr>report_node = Identifier_node \<lparr>name = codeUnits ''foo''\<rparr>,
              message = ''{{friendlyName}} '' @ [CHR 0x27] @ ''{{name}}'' @ [CHR 0x27]
                        @ '' must be PascalCased.'',
              friendlyName = ''Class'', reported_name = Some (codeUnits ''foo'')\<rparr>]"
  "visit (DeclarationNode
      \<lparr>nodeType = ''ClassDeclaration'', id_node = Some \<lparr>name = codeUnits ''Foo''\<rparr>, abstract = False\<rparr>)
     = Inr []"
  "visit (DeclarationNode \<lparr>nodeType = ''ClassDeclaration'', id_node = None, abstract = False\<rparr>)
     = Inr []"
  "visit (VariableDeclaratorNode
      \<lparr>declarator_id = Some (Identifier_node \<lparr>name = codeUnits ''x''\<rparr>),
       init = \<lparr>nodeType = ''ClassExpression'', id_node = None, abstract = False\<rparr>\<rparr>)
     = Inr [\<lparr>report_node = Identifier_node \<lparr>name = codeUnits ''x''\<rparr>,
              message = ''{{friendlyName}} '' @ [CHR 0x27] @ ''{{name}}'' @ [CHR 0x27]
                        @ '' must be PascalCased.'',
              friendlyName = ''Class'', reported_name = Some (codeUnits ''x'')\<rparr>]"
  by (simp_all add: declarationListener_def variableDeclaratorListener_def Let_def
      isPascalCase_Some report_def matchesPascalCase_def codeUnits_def codeUnit_def
      upperCase_def alphaNumeric_def)

end
